theory Spec2Isabelle
  imports Main "HOL-Library.AList"
begin

section \<open>OLOPA escrow backend: data model\<close>

text \<open>
  The escrow service of the OLOPA backend (services/escrow.service, with its request
  validators, its router and the XRPL client configuration) as a shallow embedding.

  Conventions of the embedding.
  \<^item> A JavaScript string is the list of the bytes of its UTF-8 encoding, so that
    \<open>Buffer.from(str, 'utf8')\<close> is the string itself and the empty string is \<open>[]\<close>. A string
    with an unpaired surrogate has no such encoding and is outside the model.
  \<^item> A JavaScript number that holds an integer is an \<open>int\<close>. The numbers are doubles: the
    result of a subtraction or an addition is the exact result rounded to the nearest double
    (\<open>double_round\<close> below). Numbers that are not integers are outside the model.
  \<^item> A property that may be \<open>undefined\<close> is an \<open>option\<close>.
  \<^item> A ledger transaction object is an association list from field names to JSON values;
    assigning a property is \<open>AList.update\<close> (in place when the key exists, appended otherwise).
  \<^item> An \<open>async\<close> method takes the service state and returns its outcome (\<open>Inl\<close> a thrown
    error, \<open>Inr\<close> the returned value) with the new state; the state records every call made
    to the XRPL client library, in order.
  \<^item> Logging is left out: a \<open>catch\<close> block that logs and rethrows does not change the outcome.
  \<^item> A response of the ledger has the members the code reads from it.
  \<^item> Where two objects of the source have a member of the same name, one of them is renamed
    here: the \<open>transaction\<close> of a prepare result is \<open>prepared\<close>, the \<open>success\<close> of a submission
    result is \<open>accepted\<close>, and the members of the finish result, of the cancel request and of the
    escrow details carry a prefix.
  server.js has its own copy of the handlers, written inline, with its own copies of
  \<open>toRippleTime\<close>, \<open>fromRippleTime\<close> and \<open>toHex\<close>. Its finish handler, whose answer differs
  from the service's, is modelled below; its other handlers are not.
\<close>

datatype json =
    JNull
  | JBool bool
  | JNum int
  | JStr string
  | JArr "json list"
  | JObj "(string \<times> json) list"

type_synonym tx = "(string \<times> json) list"

text \<open>
  Thrown values. \<open>Error m\<close> is \<open>new Error(m)\<close>, which has no \<open>data\<close> property.
  \<open>ClientError m d\<close> is an error thrown by the XRPL client, with its message and
  \<open>error.data.error\<close> when the ledger's response carries one.
\<close>

datatype error =
    Error string
  | ClientError string "string option"

fun message :: "error \<Rightarrow> string" where
  "message (Error m) = m"
| "message (ClientError m d) = m"

fun data_error :: "error \<Rightarrow> string option" where
  "data_error (Error m) = None"
| "data_error (ClientError m d) = d"

subsection \<open>Requests\<close>

datatype amount =
    Drops string
  | Issued string string string

record memo =
  mtype :: "string option"
  mdata :: "string option"

record create_params =
  sourceAddress :: string
  destinationAddress :: string
  amount :: amount
  finishAfter :: "int option"
  cancelAfter :: "int option"
  condition :: "string option"
  memo :: "memo option"

record finish_params =
  finisherAddress :: string
  ownerAddress :: string
  offerSequence :: int
  fulfillment :: "string option"

record cancel_params =
  cancellerAddress :: string
  cancelOwnerAddress :: string
  cancelOfferSequence :: int

record signature_packet =
  signer :: string
  signature :: string
  publicKey :: "string option"

record multisig_params =
  transaction :: tx
  signatures :: "signature_packet list"

subsection \<open>Ledger responses\<close>

record signer_list =
  SignerQuorum :: int
  SignerEntries :: "(string \<times> int) list"

record account_info =
  signer_lists :: "signer_list list option"

record submit_response =
  engine_result :: string
  engine_result_message :: string
  tx_json_hash :: string
  validated :: "bool option"

record escrow_node =
  Account :: string
  Destination :: string
  Amount :: json
  FinishAfter :: "int option"
  CancelAfter :: "int option"
  Condition :: "string option"
  SourceTag :: "int option"
  DestinationTag :: "int option"
  PreviousTxnID :: string

subsection \<open>Results\<close>

record instructions =
  instr_message :: string
  signingRequired :: bool
  multisigRequired :: "bool option"

record prepare_result =
  success :: bool
  prepared :: tx
  instructions :: instructions

record finish_result =
  finish_success :: bool
  finish_prepared :: tx
  requiresMultisig :: bool
  signerList :: "signer_list option"
  finish_instructions :: instructions

record submit_result =
  accepted :: bool
  txHash :: string
  resultCode :: string
  resultMessage :: string
  signerCount :: "nat option"
  signers :: "string list option"
  result_validated :: bool

record escrow_details =
  owner :: string
  destination :: string
  escrow_amount :: json
  escrow_finishAfter :: "int option"
  escrow_cancelAfter :: "int option"
  escrow_condition :: "string option"
  sourceTag :: "int option"
  destinationTag :: "int option"
  previousTxnID :: string

datatype status_result =
    Active escrow_details
  | NotFound string

section \<open>The XRPL client as an environment\<close>

text \<open>
  Every call into the \<open>xrpl\<close> library is recorded. \<open>Encode\<close> is local (the binary codec);
  the others reach the ledger network.
\<close>

datatype call =
    Connect string
  | ServerInfo
  | AccountInfo string
  | Autofill tx
  | Encode tx
  | Submit string
  | LedgerEntry string int

fun is_network_call :: "call \<Rightarrow> bool" where
  "is_network_call (Encode t) = False"
| "is_network_call c = True"

text \<open>
  The ledger and the library are a black box: the environment fixes what each call
  answers. \<open>network\<close> and \<open>serverUrl\<close> are the two constants \<open>getXRPLClient\<close> computes from
  the process environment; \<open>serverUrl = None\<close> is the case of an unknown network name.
\<close>

record env =
  network :: string
  serverUrl :: "string option"
  connect_res :: "error option"
  server_info_res :: "error option"
  isValidAddress :: "string \<Rightarrow> bool"
  autofill_res :: "tx \<Rightarrow> error + tx"
  account_info_res :: "string \<Rightarrow> error + account_info"
  encode_res :: "tx \<Rightarrow> error + string"
  submit_res :: "string \<Rightarrow> error + submit_response"
  ledger_entry_res :: "string \<Rightarrow> int \<Rightarrow> error + escrow_node"

text \<open>
  The service's state: whether \<open>this.client\<close> is set and connected, and the calls made.
\<close>

record state =
  connected :: bool
  calls :: "call list"

definition record_call :: "call \<Rightarrow> state \<Rightarrow> state" where
  "record_call c st = st\<lparr>calls := calls st @ [c]\<rparr>"

definition client_autofill :: "env \<Rightarrow> tx \<Rightarrow> state \<Rightarrow> (error + tx) \<times> state" where
  "client_autofill en t st = (autofill_res en t, record_call (Autofill t) st)"

definition client_account_info :: "env \<Rightarrow> string \<Rightarrow> state \<Rightarrow> (error + account_info) \<times> state" where
  "client_account_info en a st = (account_info_res en a, record_call (AccountInfo a) st)"

definition xrpl_encode :: "env \<Rightarrow> tx \<Rightarrow> state \<Rightarrow> (error + string) \<times> state" where
  "xrpl_encode en t st = (encode_res en t, record_call (Encode t) st)"

definition client_submit :: "env \<Rightarrow> string \<Rightarrow> state \<Rightarrow> (error + submit_response) \<times> state" where
  "client_submit en b st = (submit_res en b, record_call (Submit b) st)"

definition client_ledger_entry ::
  "env \<Rightarrow> string \<Rightarrow> int \<Rightarrow> state \<Rightarrow> (error + escrow_node) \<times> state" where
  "client_ledger_entry en a n st = (ledger_entry_res en a n, record_call (LedgerEntry a n) st)"

text \<open>
  \<open>getXRPLClient\<close> (config/xrpl.config): an unknown network throws before anything is
  opened; otherwise a new client connects and asks for \<open>server_info\<close>, and any failure of
  either (also of reading the answer) is rethrown as \<open>XRPL connection failed: ...\<close>. The
  server URL is taken to be one the client's constructor accepts.
\<close>

definition getXRPLClient :: "env \<Rightarrow> state \<Rightarrow> (error + unit) \<times> state" where
  "getXRPLClient en st =
     (case serverUrl en of
        None \<Rightarrow> (Inl (Error (''Invalid network: '' @ network en)), st)
      | Some url \<Rightarrow>
          (let st1 = record_call (Connect url) st in
           case connect_res en of
             Some e \<Rightarrow> (Inl (Error (''XRPL connection failed: '' @ message e)), st1)
           | None \<Rightarrow>
               (let st2 = record_call ServerInfo st1 in
                case server_info_res en of
                  Some e \<Rightarrow> (Inl (Error (''XRPL connection failed: '' @ message e)), st2)
                | None \<Rightarrow> (Inr (), st2))))"

text \<open>
  \<open>initialize\<close>: reuse the client when it is connected, otherwise fetch a new one.
\<close>

definition initialize :: "env \<Rightarrow> state \<Rightarrow> (error + unit) \<times> state" where
  "initialize en st =
     (if connected st then (Inr (), st)
      else (case getXRPLClient en st of
              (Inl e, st1) \<Rightarrow> (Inl e, st1)
            | (Inr u, st1) \<Rightarrow> (Inr (), st1\<lparr>connected := True\<rparr>)))"

section \<open>Numbers\<close>

text \<open>
  Doubles have 53 significant bits. \<open>double_ulp m\<close> is the distance between neighbouring
  doubles at the magnitude \<open>m\<close>: 1 below \<open>2 ^ 53\<close>, and twice as much each time the magnitude
  doubles.
\<close>

function double_ulp :: "int \<Rightarrow> int" where
  "double_ulp m = (if m < 2 ^ 53 then 1 else 2 * double_ulp (m div 2))"
  by pat_completeness auto
termination
  by (relation "measure nat") auto

declare double_ulp.simps [simp del]

text \<open>
  The double nearest to an integer, ties going to the double whose last significant bit is
  zero (the rounding of every arithmetic operation of JavaScript). Every integer up to
  \<open>2 ^ 53\<close> in absolute value is a double. Magnitudes beyond the largest finite double
  are outside the model.
\<close>

definition double_round :: "int \<Rightarrow> int" where
  "double_round x =
     (if \<bar>x\<bar> \<le> 2 ^ 53 then x
      else (let m = \<bar>x\<bar>;
                q = double_ulp m;
                lo = (m div q) * q;
                r = m mod q;
                up = (q < 2 * r \<or> (q = 2 * r \<and> odd (m div q)))
            in sgn x * (if up then lo + q else lo)))"

definition is_double :: "int \<Rightarrow> bool" where
  "is_double x = (double_round x = x)"

section \<open>Time codec and memo codec\<close>

definition toRippleTime :: "int \<Rightarrow> int" where
  "toRippleTime unixTimestamp = double_round (unixTimestamp - 946684800)"

definition fromRippleTime :: "int \<Rightarrow> int" where
  "fromRippleTime rippleTime = double_round (rippleTime + 946684800)"

text \<open>
  \<open>toHex\<close>: two uppercase hexadecimal digits for each byte of the string.
\<close>

definition hex_digit :: "nat \<Rightarrow> char" where
  "hex_digit n = ''0123456789ABCDEF'' ! n"

definition byte_hex :: "char \<Rightarrow> string" where
  "byte_hex c = [hex_digit (of_char c div 16), hex_digit (of_char c mod 16)]"

definition toHex :: "string \<Rightarrow> string" where
  "toHex str = concat (map byte_hex str)"

section \<open>The escrow service\<close>

subsection \<open>JavaScript truthiness of the optional request fields\<close>

definition truthy_num :: "int option \<Rightarrow> bool" where
  "truthy_num v = (case v of None \<Rightarrow> False | Some n \<Rightarrow> n \<noteq> 0)"

definition truthy_str :: "string option \<Rightarrow> bool" where
  "truthy_str v = (case v of None \<Rightarrow> False | Some s \<Rightarrow> s \<noteq> [])"

text \<open>\<open>v || d\<close> on a string that may be undefined.\<close>

definition or_default :: "string option \<Rightarrow> string \<Rightarrow> string" where
  "or_default v d = (case v of None \<Rightarrow> d | Some s \<Rightarrow> if s = [] then d else s)"

definition amount_json :: "amount \<Rightarrow> json" where
  "amount_json a =
     (case a of
        Drops s \<Rightarrow> JStr s
      | Issued c v i \<Rightarrow> JObj [(''currency'', JStr c), (''value'', JStr v), (''issuer'', JStr i)])"

subsection \<open>prepareEscrowCreate\<close>

text \<open>The transaction object built between the address checks and the autofill.\<close>

definition memo_entry :: "memo \<Rightarrow> json" where
  "memo_entry m =
     JObj [(''Memo'', JObj [(''MemoType'', JStr (toHex (or_default (mtype m) ''escrow''))),
                            (''MemoData'', JStr (toHex (or_default (mdata m) [])))])]"

definition escrowCreateTx :: "create_params \<Rightarrow> tx" where
  "escrowCreateTx params =
     (let tx0 = [(''TransactionType'', JStr ''EscrowCreate''),
                 (''Account'', JStr (sourceAddress params)),
                 (''Destination'', JStr (destinationAddress params)),
                 (''Amount'', amount_json (amount params))];
          tx1 = (case finishAfter params of
                   None \<Rightarrow> tx0
                 | Some f \<Rightarrow> if f \<noteq> 0 then AList.update ''FinishAfter'' (JNum (toRippleTime f)) tx0
                             else tx0);
          tx2 = (case cancelAfter params of
                   None \<Rightarrow> tx1
                 | Some c \<Rightarrow> if c \<noteq> 0 then AList.update ''CancelAfter'' (JNum (toRippleTime c)) tx1
                             else tx1);
          tx3 = (case condition params of
                   None \<Rightarrow> tx2
                 | Some c \<Rightarrow> if c \<noteq> [] then AList.update ''Condition'' (JStr c) tx2 else tx2);
          tx4 = (case memo params of
                   None \<Rightarrow> tx3
                 | Some m \<Rightarrow> AList.update ''Memos'' (JArr [memo_entry m]) tx3)
      in tx4)"

definition create_instructions :: instructions where
  "create_instructions =
     \<lparr>instr_message = ''Transaction prepared. Sign this transaction with your private key and submit via /api/escrow/submit'',
      signingRequired = True, multisigRequired = None\<rparr>"

definition prepareEscrowCreate ::
  "env \<Rightarrow> create_params \<Rightarrow> state \<Rightarrow> (error + prepare_result) \<times> state" where
  "prepareEscrowCreate en params st =
     (case initialize en st of
        (Inl e, st1) \<Rightarrow> (Inl e, st1)
      | (Inr u, st1) \<Rightarrow>
          if \<not> isValidAddress en (sourceAddress params)
            then (Inl (Error ''Invalid source address''), st1)
          else if \<not> isValidAddress en (destinationAddress params)
            then (Inl (Error ''Invalid destination address''), st1)
          else (case client_autofill en (escrowCreateTx params) st1 of
                  (Inl e, st2) \<Rightarrow> (Inl e, st2)
                | (Inr p, st2) \<Rightarrow>
                    (Inr \<lparr>success = True, prepared = p, instructions = create_instructions\<rparr>,
                     st2)))"

subsection \<open>prepareEscrowFinish\<close>

definition escrowFinishTx :: "finish_params \<Rightarrow> tx" where
  "escrowFinishTx params =
     (let tx0 = [(''TransactionType'', JStr ''EscrowFinish''),
                 (''Account'', JStr (finisherAddress params)),
                 (''Owner'', JStr (ownerAddress params)),
                 (''OfferSequence'', JNum (offerSequence params))]
      in case fulfillment params of
           None \<Rightarrow> tx0
         | Some f \<Rightarrow> if f \<noteq> [] then AList.update ''Fulfillment'' (JStr f) tx0 else tx0)"

definition multisig_instructions :: instructions where
  "multisig_instructions =
     \<lparr>instr_message = ''This account requires multisignature. Collect signatures from required signers and submit via /api/escrow/submit-multisig'',
      signingRequired = True, multisigRequired = Some True\<rparr>"

definition single_instructions :: instructions where
  "single_instructions =
     \<lparr>instr_message = ''Transaction prepared. Sign and submit via /api/escrow/submit'',
      signingRequired = True, multisigRequired = None\<rparr>"

text \<open>
  \<open>isMultisig = signerList && signerList.length > 0\<close> is truthy exactly when the list is
  there and has a first element, which is then \<open>signerList[0]\<close>.
\<close>

definition finish_outcome :: "signer_list list option \<Rightarrow> tx \<Rightarrow> finish_result" where
  "finish_outcome sl p =
     (case sl of
        Some (first # rest) \<Rightarrow>
          \<lparr>finish_success = True, finish_prepared = p, requiresMultisig = True,
           signerList = Some first, finish_instructions = multisig_instructions\<rparr>
      | _ \<Rightarrow>
          \<lparr>finish_success = True, finish_prepared = p, requiresMultisig = False,
           signerList = None, finish_instructions = single_instructions\<rparr>)"

definition prepareEscrowFinish ::
  "env \<Rightarrow> finish_params \<Rightarrow> state \<Rightarrow> (error + finish_result) \<times> state" where
  "prepareEscrowFinish en params st =
     (case initialize en st of
        (Inl e, st1) \<Rightarrow> (Inl e, st1)
      | (Inr u, st1) \<Rightarrow>
          if \<not> isValidAddress en (finisherAddress params)
            then (Inl (Error ''Invalid finisher address''), st1)
          else if \<not> isValidAddress en (ownerAddress params)
            then (Inl (Error ''Invalid owner address''), st1)
          else (case client_account_info en (finisherAddress params) st1 of
                  (Inl e, st2) \<Rightarrow> (Inl e, st2)
                | (Inr accountInfo, st2) \<Rightarrow>
                    (case client_autofill en (escrowFinishTx params) st2 of
                       (Inl e, st3) \<Rightarrow> (Inl e, st3)
                     | (Inr p, st3) \<Rightarrow>
                         (Inr (finish_outcome (signer_lists accountInfo) p), st3))))"

subsection \<open>prepareEscrowCancel\<close>

definition escrowCancelTx :: "cancel_params \<Rightarrow> tx" where
  "escrowCancelTx params =
     [(''TransactionType'', JStr ''EscrowCancel''),
      (''Account'', JStr (cancellerAddress params)),
      (''Owner'', JStr (cancelOwnerAddress params)),
      (''OfferSequence'', JNum (cancelOfferSequence params))]"

definition prepareEscrowCancel ::
  "env \<Rightarrow> cancel_params \<Rightarrow> state \<Rightarrow> (error + prepare_result) \<times> state" where
  "prepareEscrowCancel en params st =
     (case initialize en st of
        (Inl e, st1) \<Rightarrow> (Inl e, st1)
      | (Inr u, st1) \<Rightarrow>
          if \<not> isValidAddress en (cancellerAddress params)
            then (Inl (Error ''Invalid canceller address''), st1)
          else if \<not> isValidAddress en (cancelOwnerAddress params)
            then (Inl (Error ''Invalid owner address''), st1)
          else (case client_autofill en (escrowCancelTx params) st1 of
                  (Inl e, st2) \<Rightarrow> (Inl e, st2)
                | (Inr p, st2) \<Rightarrow>
                    (Inr \<lparr>success = True, prepared = p, instructions = single_instructions\<rparr>,
                     st2)))"

subsection \<open>submitTransaction\<close>

definition submission ::
  "submit_response \<Rightarrow> nat option \<Rightarrow> string list option \<Rightarrow> submit_result" where
  "submission r n ss =
     \<lparr>accepted = (engine_result r = ''tesSUCCESS''),
      txHash = tx_json_hash r,
      resultCode = engine_result r,
      resultMessage = engine_result_message r,
      signerCount = n,
      signers = ss,
      result_validated = (case validated r of None \<Rightarrow> False | Some b \<Rightarrow> b)\<rparr>"

definition submitTransaction ::
  "env \<Rightarrow> string \<Rightarrow> state \<Rightarrow> (error + submit_result) \<times> state" where
  "submitTransaction en signedTxBlob st =
     (case initialize en st of
        (Inl e, st1) \<Rightarrow> (Inl e, st1)
      | (Inr u, st1) \<Rightarrow>
          (case client_submit en signedTxBlob st1 of
             (Inl e, st2) \<Rightarrow> (Inl e, st2)
           | (Inr r, st2) \<Rightarrow> (Inr (submission r None None), st2)))"

subsection \<open>submitMultisigTransaction\<close>

definition signer_entry :: "signature_packet \<Rightarrow> json" where
  "signer_entry sig =
     JObj [(''Signer'', JObj [(''Account'', JStr (signer sig)),
                              (''TxnSignature'', JStr (signature sig)),
                              (''SigningPubKey'', JStr (or_default (publicKey sig) []))])]"

text \<open>The object \<open>{...transaction, Signers: signers, SigningPubKey: ''}\<close>.\<close>

definition multisignedTx :: "tx \<Rightarrow> signature_packet list \<Rightarrow> tx" where
  "multisignedTx t sigs =
     AList.update ''SigningPubKey'' (JStr [])
       (AList.update ''Signers'' (JArr (map signer_entry sigs)) t)"

definition submitMultisigTransaction ::
  "env \<Rightarrow> multisig_params \<Rightarrow> state \<Rightarrow> (error + submit_result) \<times> state" where
  "submitMultisigTransaction en params st =
     (case initialize en st of
        (Inl e, st1) \<Rightarrow> (Inl e, st1)
      | (Inr u, st1) \<Rightarrow>
          (case xrpl_encode en (multisignedTx (transaction params) (signatures params)) st1 of
             (Inl e, st2) \<Rightarrow> (Inl e, st2)
           | (Inr encoded, st2) \<Rightarrow>
               (case client_submit en encoded st2 of
                  (Inl e, st3) \<Rightarrow> (Inl e, st3)
                | (Inr r, st3) \<Rightarrow>
                    (Inr (submission r (Some (length (signatures params)))
                            (Some (map signer (signatures params)))),
                     st3))))"

subsection \<open>getEscrowStatus\<close>

text \<open>
  In \<open>escrow_finishAfter\<close>, \<open>None\<close> is the \<open>NaN\<close> that \<open>undefined + 946684800\<close> gives; in the
  other optional members it is \<open>null\<close>.
\<close>

definition escrow_view :: "escrow_node \<Rightarrow> escrow_details" where
  "escrow_view escrow =
     \<lparr>owner = Account escrow,
      destination = Destination escrow,
      escrow_amount = Amount escrow,
      escrow_finishAfter = map_option fromRippleTime (FinishAfter escrow),
      escrow_cancelAfter =
        (if truthy_num (CancelAfter escrow) then map_option fromRippleTime (CancelAfter escrow)
         else None),
      escrow_condition = (if truthy_str (Condition escrow) then Condition escrow else None),
      sourceTag = (if truthy_num (SourceTag escrow) then SourceTag escrow else None),
      destinationTag =
        (if truthy_num (DestinationTag escrow) then DestinationTag escrow else None),
      previousTxnID = PreviousTxnID escrow\<rparr>"

text \<open>The body of the \<open>try\<close> block.\<close>

definition getEscrowStatus_try ::
  "env \<Rightarrow> string \<Rightarrow> int \<Rightarrow> state \<Rightarrow> (error + status_result) \<times> state" where
  "getEscrowStatus_try en ownerAddr offerSeq st =
     (case initialize en st of
        (Inl e, st1) \<Rightarrow> (Inl e, st1)
      | (Inr u, st1) \<Rightarrow>
          (case client_ledger_entry en ownerAddr offerSeq st1 of
             (Inl e, st2) \<Rightarrow> (Inl e, st2)
           | (Inr escrow, st2) \<Rightarrow> (Inr (Active (escrow_view escrow)), st2)))"

text \<open>The \<open>catch\<close> block turns \<open>entryNotFound\<close> into a result and rethrows the rest.\<close>

definition getEscrowStatus ::
  "env \<Rightarrow> string \<Rightarrow> int \<Rightarrow> state \<Rightarrow> (error + status_result) \<times> state" where
  "getEscrowStatus en ownerAddr offerSeq st =
     (case getEscrowStatus_try en ownerAddr offerSeq st of
        (Inl e, st1) \<Rightarrow>
          if data_error e = Some ''entryNotFound''
            then (Inr (NotFound ''Escrow not found. It may have been finished or cancelled.''), st1)
          else (Inl e, st1)
      | (Inr r, st1) \<Rightarrow> (Inr r, st1))"

section \<open>Request validators and routes\<close>

text \<open>
  The Joi schemas, as predicates on a request body whose members already have their JSON
  types; a body without one of the members typed as present here is rejected by the
  schema and is outside the model. \<open>Joi.string()\<close> does not accept the empty string.
\<close>

definition in_range :: "char \<Rightarrow> char \<Rightarrow> char \<Rightarrow> bool" where
  "in_range lo hi c = ((of_char lo :: nat) \<le> of_char c \<and> (of_char c :: nat) \<le> of_char hi)"

definition base58_char :: "char \<Rightarrow> bool" where
  "base58_char c =
     (in_range CHR ''1'' CHR ''9'' c \<or> in_range CHR ''A'' CHR ''H'' c \<or>
      in_range CHR ''J'' CHR ''N'' c \<or> in_range CHR ''P'' CHR ''Z'' c \<or>
      in_range CHR ''a'' CHR ''k'' c \<or> in_range CHR ''m'' CHR ''z'' c)"

text \<open>The pattern \<open>/^r[1-9A-HJ-NP-Za-km-z]{25,34}$/\<close>.\<close>

definition xrplAddress :: "string \<Rightarrow> bool" where
  "xrplAddress s =
     (case s of
        [] \<Rightarrow> False
      | c # cs \<Rightarrow> c = CHR ''r'' \<and> 25 \<le> length cs \<and> length cs \<le> 34 \<and> list_all base58_char cs)"

text \<open>The pattern \<open>/^\d+$/\<close>.\<close>

definition digits :: "string \<Rightarrow> bool" where
  "digits s = (s \<noteq> [] \<and> list_all (in_range CHR ''0'' CHR ''9'') s)"

text \<open>
  The \<open>length\<close> of a JavaScript string counts UTF-16 code units: one for each UTF-8
  sequence, and one more when the sequence has four bytes.
\<close>

definition js_length :: "string \<Rightarrow> nat" where
  "js_length s =
     length (filter (\<lambda>c. (of_char c :: nat) < 128 \<or> 192 \<le> (of_char c :: nat)) s) +
     length (filter (\<lambda>c. 240 \<le> (of_char c :: nat)) s)"

definition optional_string :: "string option \<Rightarrow> nat option \<Rightarrow> bool" where
  "optional_string v bound =
     (case v of
        None \<Rightarrow> True
      | Some s \<Rightarrow> s \<noteq> [] \<and> (case bound of None \<Rightarrow> True | Some n \<Rightarrow> js_length s \<le> n))"

definition amount_schema :: "amount \<Rightarrow> bool" where
  "amount_schema a =
     (case a of
        Drops s \<Rightarrow> digits s
      | Issued c v i \<Rightarrow> c \<noteq> [] \<and> js_length c = 3 \<and> v \<noteq> [] \<and> xrplAddress i)"

text \<open>\<open>Joi.number()\<close> refuses a number that is not a safe integer.\<close>

definition safe_integer :: "int \<Rightarrow> bool" where
  "safe_integer n = (- (2 ^ 53 - 1) \<le> n \<and> n \<le> 2 ^ 53 - 1)"

text \<open>
  \<open>now\<close> is \<open>Math.floor(Date.now() / 1000)\<close> at the time the module is loaded.
\<close>

definition escrowCreateSchema :: "int \<Rightarrow> create_params \<Rightarrow> bool" where
  "escrowCreateSchema now body =
     (xrplAddress (sourceAddress body) \<and>
      xrplAddress (destinationAddress body) \<and>
      amount_schema (amount body) \<and>
      (case finishAfter body of None \<Rightarrow> False | Some f \<Rightarrow> safe_integer f \<and> now \<le> f) \<and>
      (case cancelAfter body of
         None \<Rightarrow> True
       | Some c \<Rightarrow>
           safe_integer c \<and> (case finishAfter body of None \<Rightarrow> False | Some f \<Rightarrow> f \<le> c)) \<and>
      optional_string (condition body) None \<and>
      (case memo body of
         None \<Rightarrow> True
       | Some m \<Rightarrow> optional_string (mtype m) (Some 100) \<and> optional_string (mdata m) (Some 1000)))"


definition signature_schema :: "signature_packet \<Rightarrow> bool" where
  "signature_schema sig =
     (xrplAddress (signer sig) \<and> signature sig \<noteq> [] \<and> optional_string (publicKey sig) None)"

definition multisigSubmitSchema :: "multisig_params \<Rightarrow> bool" where
  "multisigSubmitSchema body =
     (list_all signature_schema (signatures body) \<and> 1 \<le> length (signatures body))"

text \<open>
  What a route answers: \<open>Ok\<close> is the 200 envelope with the service's result,
  \<open>ValidationFailed\<close> the 400 envelope of the validation middleware (with its list of
  details), \<open>Failed m\<close> the 400 envelope of the handler's \<open>catch\<close>, with the error's message.
\<close>

datatype 'a response =
    Ok 'a
  | ValidationFailed
  | Failed string

text \<open>
  \<open>validateRequest(schema)\<close> followed by the handler: the handler runs only when the
  body passes the schema.
\<close>

definition validateRequest ::
  "('b \<Rightarrow> bool) \<Rightarrow> ('b \<Rightarrow> state \<Rightarrow> (error + 'a) \<times> state) \<Rightarrow> 'b \<Rightarrow> state \<Rightarrow> 'a response \<times> state" where
  "validateRequest schema handler body st =
     (if \<not> schema body then (ValidationFailed, st)
      else (case handler body st of
              (Inl e, st1) \<Rightarrow> (Failed (message e), st1)
            | (Inr r, st1) \<Rightarrow> (Ok r, st1)))"

definition post_create ::
  "int \<Rightarrow> env \<Rightarrow> create_params \<Rightarrow> state \<Rightarrow> prepare_result response \<times> state" where
  "post_create now en = validateRequest (escrowCreateSchema now) (prepareEscrowCreate en)"

definition post_submit_multisig ::
  "env \<Rightarrow> multisig_params \<Rightarrow> state \<Rightarrow> submit_result response \<times> state" where
  "post_submit_multisig en = validateRequest multisigSubmitSchema (submitMultisigTransaction en)"

section \<open>The finish handler of server.js\<close>







section \<open>Vocabulary of the properties\<close>

text \<open>The calls that establish the connection (\<open>connect\<close> and the \<open>server_info\<close> query).\<close>

fun connection_call :: "call \<Rightarrow> bool" where
  "connection_call (Connect url) = True"
| "connection_call ServerInfo = True"
| "connection_call c = False"

text \<open>The transactions handed to \<open>xrpl.encode\<close>, in order.\<close>

fun encoded :: "call list \<Rightarrow> tx list" where
  "encoded [] = []"
| "encoded (Encode t # cs) = t # encoded cs"
| "encoded (c # cs) = encoded cs"

text \<open>
  The answer \<open>p\<close> of \<open>client.autofill\<close> agrees with the transaction \<open>t\<close> it was given on the
  fields \<open>ks\<close>: each of them has the same value in both, or is in neither.
\<close>

definition agree_on :: "string list \<Rightarrow> tx \<Rightarrow> tx \<Rightarrow> bool" where
  "agree_on ks t p = list_all (\<lambda>k. map_of p k = map_of t k) ks"

text \<open>
  A standard hexadecimal decoder: two digits, of either case, give one byte; anything else
  is refused.
\<close>

definition hex_value :: "char \<Rightarrow> nat option" where
  "hex_value c =
     (if in_range CHR ''0'' CHR ''9'' c then Some (of_char c - of_char CHR ''0'')
      else if in_range CHR ''A'' CHR ''F'' c then Some (of_char c - of_char CHR ''A'' + 10)
      else if in_range CHR ''a'' CHR ''f'' c then Some (of_char c - of_char CHR ''a'' + 10)
      else None)"

fun hexDecode :: "string \<Rightarrow> string option" where
  "hexDecode [] = Some []"
| "hexDecode [h] = None"
| "hexDecode (h # l # rest) =
     (case (hex_value h, hex_value l, hexDecode rest) of
        (Some a, Some b, Some bytes) \<Rightarrow> Some (char_of (16 * a + b) # bytes)
      | _ \<Rightarrow> None)"

subsection \<open>Sample inputs\<close>

definition alice :: string where
  "alice = ''rHb9CJAWyB4rj91VRWn96DkukG4bwdtyTh''"

definition bob :: string where
  "bob = ''rPT1Sjq2YGrBMTttX4GZHjKu9dyfzbpAYe''"

definition testnet_url :: string where
  "testnet_url = ''wss://s.altnet.rippletest.net:51233''"

text \<open>A fresh service (\<open>this.client = null\<close>) and the same service once connected.\<close>

definition fresh :: state where
  "fresh = \<lparr>connected = False, calls = []\<rparr>"

definition online :: state where
  "online = \<lparr>connected = True, calls = [Connect testnet_url, ServerInfo]\<rparr>"

text \<open>
  A reachable test network: every call succeeds, the account has no signer list, the
  engine applies what is submitted, and there is no escrow entry. The address check of the
  library is stood in for by the validators' pattern.
\<close>

definition testnet :: env where
  "testnet =
     \<lparr>network = ''testnet'',
      serverUrl = Some testnet_url,
      connect_res = None,
      server_info_res = None,
      isValidAddress = xrplAddress,
      autofill_res =
        (\<lambda>t. Inr (t @ [(''Fee'', JStr ''12''), (''Sequence'', JNum 7),
                       (''LastLedgerSequence'', JNum 100)])),
      account_info_res = (\<lambda>a. Inr \<lparr>signer_lists = None\<rparr>),
      encode_res = (\<lambda>t. Inr ''1200''),
      submit_res =
        (\<lambda>b. Inr \<lparr>engine_result = ''tesSUCCESS'',
                     engine_result_message = ''The transaction was applied.'',
                     tx_json_hash = ''E3FE'', validated = None\<rparr>),
      ledger_entry_res = (\<lambda>a n. Inl (ClientError ''Entry not found.'' (Some ''entryNotFound'')))\<rparr>"

definition timed_out :: error where
  "timed_out = ClientError ''Timeout for request'' None"

definition rejection :: submit_response where
  "rejection =
     \<lparr>engine_result = ''tecNO_PERMISSION'',
      engine_result_message = ''No permission to perform requested operation.'',
      tx_json_hash = ''E3FE'', validated = Some False\<rparr>"

definition quorum :: signer_list where
  "quorum = \<lparr>SignerQuorum = 2, SignerEntries = [(alice, 1), (bob, 1)]\<rparr>"

definition create_request :: create_params where
  "create_request =
     \<lparr>sourceAddress = alice, destinationAddress = bob, amount = Drops ''1000000'',
      finishAfter = Some 2000003600, cancelAfter = None, condition = None, memo = None\<rparr>"

definition finish_request :: finish_params where
  "finish_request =
     \<lparr>finisherAddress = bob, ownerAddress = alice, offerSequence = 7, fulfillment = None\<rparr>"

definition cancel_request :: cancel_params where
  "cancel_request =
     \<lparr>cancellerAddress = alice, cancelOwnerAddress = alice, cancelOfferSequence = 7\<rparr>"

definition packets :: "signature_packet list" where
  "packets =
     [\<lparr>signer = bob, signature = ''3045'', publicKey = Some ''02AB''\<rparr>,
      \<lparr>signer = alice, signature = ''3046'', publicKey = None\<rparr>]"

text \<open>
  An account given as an X-address, which \<open>xrpl.isValidAddress\<close> accepts, and a gateway
  whose autofill does what the library's does with it: the Account of its answer is the
  classic address of the same account.
\<close>

definition carol :: string where
  "carol = ''rGWrZyQqhTp9Xu7G5Pkayo7bXjH4k4QYpf''"

definition carol_x :: string where
  "carol_x = ''XVLhHMPHU98es4dbozjVtdWzVrDjtV5fdx1mHp98tDMoQXb''"

definition rewriting :: env where
  "rewriting =
     testnet
       \<lparr>isValidAddress := (\<lambda>a. xrplAddress a \<or> a = carol_x),
        autofill_res :=
          (\<lambda>t. Inr (AList.update ''Account'' (JStr carol) t @
                     [(''Flags'', JNum 0), (''Fee'', JStr ''12''), (''Sequence'', JNum 7),
                      (''LastLedgerSequence'', JNum 100)]))\<rparr>"

definition signed_elsewhere :: tx where
  "signed_elsewhere =
     [(''TransactionType'', JStr ''EscrowFinish''), (''SigningPubKey'', JStr ''02AB''),
      (''Signers'', JArr [JNull])]"

section \<open>Auxiliary facts\<close>

lemma initialize_error_plain:
  "initialize en st = (Inl e, st1) \<Longrightarrow> data_error e = None"
  by (auto simp: initialize_def getXRPLClient_def Let_def
      split: if_splits option.splits prod.splits sum.splits)

lemma initialize_calls:
  "initialize en st = (r, st1) \<Longrightarrow>
     \<exists>cs. calls st1 = calls st @ cs \<and> list_all connection_call cs"
  by (auto simp: initialize_def getXRPLClient_def Let_def record_call_def
      split: if_splits option.splits prod.splits sum.splits)




lemma toHex_length: "length (toHex s) = 2 * length s"
  by (induction s) (simp_all add: toHex_def byte_hex_def)

lemma toHex_empty_iff: "toHex s = [] \<longleftrightarrow> s = []"
  using toHex_length [of s] by (cases s) auto

lemma hex_digit_in: "n < 16 \<Longrightarrow> hex_digit n \<in> set ''0123456789ABCDEF''"
  unfolding hex_digit_def by (rule nth_mem) simp

lemma byte_hex_upper: "list_all (\<lambda>d. d \<in> set ''0123456789ABCDEF'') (byte_hex c)"
  by (simp add: byte_hex_def hex_digit_in less_mult_imp_div_less del: set_simps)

lemma toHex_upper: "list_all (\<lambda>d. d \<in> set ''0123456789ABCDEF'') (toHex s)"
  using byte_hex_upper by (induction s) (simp_all add: toHex_def del: set_simps)

lemma agree_on_field: "agree_on ks t p \<Longrightarrow> k \<in> set ks \<Longrightarrow> map_of p k = map_of t k"
  by (simp add: agree_on_def list_all_iff)

lemma double_ulp_small: "m < 2 ^ 53 \<Longrightarrow> double_ulp m = 1"
  by (simp add: double_ulp.simps)

lemma double_ulp_large: "2 ^ 53 \<le> m \<Longrightarrow> double_ulp m = 2 * double_ulp (m div 2)"
  by (subst double_ulp.simps) simp

lemma double_round_exact: "\<bar>x\<bar> \<le> 2 ^ 53 \<Longrightarrow> double_round x = x"
  by (simp add: double_round_def)

lemma hex_value_hex_digit_all: "\<forall>n \<in> set [0..<16]. hex_value (hex_digit n) = Some n"
  by code_simp

lemma hex_value_hex_digit: "n < 16 \<Longrightarrow> hex_value (hex_digit n) = Some n"
  using hex_value_hex_digit_all by simp

lemma hexDecode_byte_hex:
  "hexDecode (byte_hex c @ rest) = map_option ((#) c) (hexDecode rest)"
proof -
  have "(of_char c :: nat) < 256" by simp
  then have hi: "(of_char c :: nat) div 16 < 16" and lo: "(of_char c :: nat) mod 16 < 16"
    by (simp_all add: less_mult_imp_div_less)
  show ?thesis
    by (cases "hexDecode rest")
      (simp_all add: byte_hex_def hex_value_hex_digit [OF hi] hex_value_hex_digit [OF lo])
qed

lemma hexDecode_toHex: "hexDecode (toHex s) = Some s"
proof (induction s)
  case Nil
  show ?case by (simp add: toHex_def)
next
  case (Cons c s)
  have "toHex (c # s) = byte_hex c @ toHex s" by (simp add: toHex_def)
  with Cons show ?case by (simp add: hexDecode_byte_hex)
qed

text \<open>
  The request schema of the create route lets no zero finishAfter through, and none whose
  conversion would round, as long as the server was started after the Unix epoch.
\<close>

lemma escrowCreateSchema_finishAfter:
  assumes "escrowCreateSchema now body" and "0 < now"
  shows "\<exists>f. finishAfter body = Some f \<and> f \<noteq> 0 \<and> is_double (f - 946684800)"
proof -
  from assms(1) obtain f where f: "finishAfter body = Some f" "safe_integer f" "now \<le> f"
    by (auto simp: escrowCreateSchema_def split: option.splits)
  with assms(2) have "f \<noteq> 0" and "\<bar>f - 946684800\<bar> \<le> 2 ^ 53"
    by (simp_all add: safe_integer_def)
  with f(1) show ?thesis
    by (simp add: is_double_def double_round_exact)
qed

lemmas sample_defs =
  alice_def bob_def testnet_url_def fresh_def online_def testnet_def timed_out_def
  rejection_def quorum_def create_request_def finish_request_def cancel_request_def
  packets_def signed_elsewhere_def carol_def carol_x_def rewriting_def

lemmas pattern_defs = xrplAddress_def base58_char_def in_range_def digits_def

lemma testnet_initialize: "initialize testnet fresh = (Inr (), online)"
  by (simp add: initialize_def getXRPLClient_def record_call_def sample_defs)

section \<open>Time codec\<close>

text \<open>
  C9, as the code has it. The time codec computes on doubles. For every integer t that is a
  double and for which t - 946684800 is a double too, toRippleTime subtracts exactly
  946684800, fromRippleTime adds it back exactly, and the round trip gives t again. This is
  so in particular for every integer t from -(2^53) + 946684800 to 2^53, which covers
  every timestamp and every safe integer that is not negative.
\<close>

theorem ripple_time_roundtrip:
  "(is_double t \<and> is_double (t - 946684800) \<longrightarrow>
      toRippleTime t = t - 946684800 \<and>
      fromRippleTime (t - 946684800) = t \<and>
      fromRippleTime (toRippleTime t) = t) \<and>
   (- (2 ^ 53) + 946684800 \<le> t \<and> t \<le> 2 ^ 53 \<longrightarrow>
      is_double t \<and> is_double (t - 946684800))"
proof -
  have "\<bar>t\<bar> \<le> 2 ^ 53 \<and> \<bar>t - 946684800\<bar> \<le> 2 ^ 53"
    if "- (2 ^ 53) + 946684800 \<le> t" and "t \<le> 2 ^ 53"
    using that by (auto simp: abs_le_iff)
  then show ?thesis
    by (auto simp: toRippleTime_def fromRippleTime_def is_double_def double_round_exact)
qed

theorem ripple_time_roundtrip_witness:
  "is_double 2000003600 \<and> is_double (2000003600 - 946684800) \<and>
   toRippleTime 2000003600 = 1053318800 \<and>
   fromRippleTime 1053318800 = 2000003600 \<and>
   fromRippleTime (toRippleTime 2000003600) = 2000003600"
  using ripple_time_roundtrip [of 2000003600]
  by (auto simp: is_double_def double_round_exact)

text \<open>
  C9 as stated fails: t = -9007199254740991 is a safe integer, but t - 946684800 lies beyond
  2^53, where only every second integer is a double. The subtraction rounds to
  -9007200201425792, and adding 946684800 back gives -9007199254740992, which is not t.
\<close>

theorem ripple_time_roundtrip_rounds:
  "is_double (- 9007199254740991) \<and>
   toRippleTime (- 9007199254740991) = - 9007200201425792 \<and>
   fromRippleTime (toRippleTime (- 9007199254740991)) = - 9007199254740992"
  by (simp add: toRippleTime_def fromRippleTime_def is_double_def double_round_def Let_def
      double_ulp_small double_ulp_large)

section \<open>Address checks and the connection\<close>

text \<open>
  C1, as the code has it. Every prepare operation starts with \<open>initialize\<close>, which may
  open the connection (connect and a server-info query) before anything is checked: the
  calls it makes are connection calls only. Once \<open>initialize\<close> has succeeded, a
  prepareEscrowCreate, prepareEscrowFinish or prepareEscrowCancel call with a malformed
  address fails with the ``Invalid ... address'' error of the first malformed address, and
  the state is the one \<open>initialize\<close> left, so no account query and no autofill is issued.
  When \<open>initialize\<close> fails, each of the three operations fails with its error.
\<close>

theorem malformed_address_rejected_once_connected:
  assumes "initialize en st = (r, st1)"
  shows "(r = Inr () \<and>
          \<not> (isValidAddress en (sourceAddress c) \<and> isValidAddress en (destinationAddress c)) \<longrightarrow>
            prepareEscrowCreate en c st =
              (Inl (Error (if isValidAddress en (sourceAddress c)
                           then ''Invalid destination address''
                           else ''Invalid source address'')), st1)) \<and>
         (r = Inr () \<and>
          \<not> (isValidAddress en (finisherAddress f) \<and> isValidAddress en (ownerAddress f)) \<longrightarrow>
            prepareEscrowFinish en f st =
              (Inl (Error (if isValidAddress en (finisherAddress f)
                           then ''Invalid owner address''
                           else ''Invalid finisher address'')), st1)) \<and>
         (r = Inr () \<and>
          \<not> (isValidAddress en (cancellerAddress x) \<and>
             isValidAddress en (cancelOwnerAddress x)) \<longrightarrow>
            prepareEscrowCancel en x st =
              (Inl (Error (if isValidAddress en (cancellerAddress x)
                           then ''Invalid owner address''
                           else ''Invalid canceller address'')), st1)) \<and>
         (\<forall>e. r = Inl e \<longrightarrow>
            prepareEscrowCreate en c st = (Inl e, st1) \<and>
            prepareEscrowFinish en f st = (Inl e, st1) \<and>
            prepareEscrowCancel en x st = (Inl e, st1)) \<and>
         (\<exists>cs. calls st1 = calls st @ cs \<and> list_all connection_call cs)"
  using assms initialize_calls [OF assms]
  by (auto simp: prepareEscrowCreate_def prepareEscrowFinish_def prepareEscrowCancel_def)

theorem malformed_address_rejected_once_connected_witness:
  "initialize testnet fresh = (Inr (), online) \<and>
   prepareEscrowCreate testnet (create_request\<lparr>sourceAddress := ''not an address''\<rparr>) fresh =
     (Inl (Error ''Invalid source address''), online) \<and>
   prepareEscrowFinish testnet (finish_request\<lparr>ownerAddress := ''rShort''\<rparr>) fresh =
     (Inl (Error ''Invalid owner address''), online) \<and>
   prepareEscrowCancel testnet (cancel_request\<lparr>cancellerAddress := []\<rparr>) fresh =
     (Inl (Error ''Invalid canceller address''), online) \<and>
   calls online = calls fresh @ [Connect testnet_url, ServerInfo]"
  using malformed_address_rejected_once_connected
    [of testnet fresh "Inr ()" online "create_request\<lparr>sourceAddress := ''not an address''\<rparr>"
        "finish_request\<lparr>ownerAddress := ''rShort''\<rparr>"
        "cancel_request\<lparr>cancellerAddress := []\<rparr>"]
    testnet_initialize
  by (simp add: sample_defs pattern_defs)

text \<open>
  C1 as stated fails: on a fresh service the malformed source address is rejected only
  after the connection has been opened and the server-info query sent, and when the network
  cannot be reached the call fails with the connection error, not with an address error.
\<close>

theorem prepare_connects_before_address_check:
  "calls fresh = [] \<and>
   prepareEscrowCreate testnet (create_request\<lparr>sourceAddress := ''not an address''\<rparr>) fresh =
     (Inl (Error ''Invalid source address''),
      \<lparr>connected = True, calls = [Connect testnet_url, ServerInfo]\<rparr>) \<and>
   is_network_call (Connect testnet_url) \<and>
   prepareEscrowCreate (testnet\<lparr>connect_res := Some timed_out\<rparr>)
       (create_request\<lparr>sourceAddress := ''not an address''\<rparr>) fresh =
     (Inl (Error ''XRPL connection failed: Timeout for request''),
      \<lparr>connected = False, calls = [Connect testnet_url]\<rparr>)"
  by (simp add: prepareEscrowCreate_def initialize_def getXRPLClient_def record_call_def
      sample_defs pattern_defs)

section \<open>Request validation in front of the service\<close>

text \<open>
  C7, as the code has it. The ordering of the two times is checked by the request schema
  of the create route, not by prepareEscrowCreate: a create request in which both
  finishAfter and cancelAfter are present and cancelAfter is earlier than finishAfter is
  answered by the route with the validation failure, the service is not called, and no
  call to the ledger is made (the state is unchanged).
\<close>

theorem route_rejects_cancel_before_finish:
  assumes "finishAfter body = Some f" and "cancelAfter body = Some c" and "c < f"
  shows "post_create now en body st = (ValidationFailed, st)"
  using assms by (simp add: post_create_def validateRequest_def escrowCreateSchema_def)

theorem route_rejects_cancel_before_finish_witness:
  "finishAfter (create_request\<lparr>cancelAfter := Some 2000000000\<rparr>) = Some 2000003600 \<and>
   cancelAfter (create_request\<lparr>cancelAfter := Some 2000000000\<rparr>) = Some 2000000000 \<and>
   (2000000000 :: int) < 2000003600 \<and>
   post_create 1900000000 testnet (create_request\<lparr>cancelAfter := Some 2000000000\<rparr>) fresh =
     (ValidationFailed, fresh)"
  using route_rejects_cancel_before_finish
    [of "create_request\<lparr>cancelAfter := Some 2000000000\<rparr>" 2000003600 2000000000
        1900000000 testnet fresh]
  by (simp add: create_request_def)

text \<open>
  C7 as stated fails: prepareEscrowCreate itself does not compare the two times. Called
  with cancelAfter = 2000000000 earlier than finishAfter = 2000003600 it returns a prepared
  descriptor whose CancelAfter is earlier than its FinishAfter.
\<close>

theorem prepareEscrowCreate_accepts_cancel_before_finish:
  "fst (prepareEscrowCreate testnet (create_request\<lparr>cancelAfter := Some 2000000000\<rparr>) fresh) =
     Inr \<lparr>success = True,
          prepared =
            [(''TransactionType'', JStr ''EscrowCreate''), (''Account'', JStr alice),
             (''Destination'', JStr bob), (''Amount'', JStr ''1000000''),
             (''FinishAfter'', JNum 1053318800), (''CancelAfter'', JNum 1053315200),
             (''Fee'', JStr ''12''), (''Sequence'', JNum 7), (''LastLedgerSequence'', JNum 100)],
          instructions = create_instructions\<rparr>"
  by (simp add: prepareEscrowCreate_def initialize_def getXRPLClient_def record_call_def
      client_autofill_def escrowCreateTx_def toRippleTime_def double_round_exact
      amount_json_def sample_defs pattern_defs)

text \<open>
  C2, as the code has it. The empty signature list is refused by the request schema of the
  submit-multisig route (at least one signature), not by submitMultisigTransaction: the
  route answers with the validation failure, the service is not called, and nothing is
  encoded or submitted (the state is unchanged).
\<close>

theorem route_rejects_empty_signatures:
  assumes "signatures body = []"
  shows "post_submit_multisig en body st = (ValidationFailed, st)"
  using assms
  by (simp add: post_submit_multisig_def validateRequest_def multisigSubmitSchema_def)

theorem route_rejects_empty_signatures_witness:
  "signatures \<lparr>transaction = escrowFinishTx finish_request, signatures = []\<rparr> = [] \<and>
   post_submit_multisig testnet
       \<lparr>transaction = escrowFinishTx finish_request, signatures = []\<rparr> fresh =
     (ValidationFailed, fresh)"
  using route_rejects_empty_signatures
    [of "\<lparr>transaction = escrowFinishTx finish_request, signatures = []\<rparr>" testnet fresh]
  by simp

text \<open>
  C2 as stated fails: submitMultisigTransaction itself has no check of the list. Called
  with no signatures it encodes the transaction with an empty Signers array, submits it,
  and returns the engine's answer with a signer count of zero.
\<close>

theorem submitMultisig_accepts_empty_signatures:
  "submitMultisigTransaction testnet
       \<lparr>transaction = escrowFinishTx finish_request, signatures = []\<rparr> fresh =
     (Inr \<lparr>accepted = True, txHash = ''E3FE'', resultCode = ''tesSUCCESS'',
           resultMessage = ''The transaction was applied.'', signerCount = Some 0,
           signers = Some [], result_validated = False\<rparr>,
      \<lparr>connected = True,
       calls =
         [Connect testnet_url, ServerInfo,
          Encode [(''TransactionType'', JStr ''EscrowFinish''), (''Account'', JStr bob),
                  (''Owner'', JStr alice), (''OfferSequence'', JNum 7),
                  (''Signers'', JArr []), (''SigningPubKey'', JStr [])],
          Submit ''1200'']\<rparr>)"
  by (simp add: submitMultisigTransaction_def initialize_def getXRPLClient_def record_call_def
      xrpl_encode_def client_submit_def submission_def multisignedTx_def escrowFinishTx_def
      sample_defs)

section \<open>Multisig detection and assembly\<close>






section \<open>Submission and status\<close>

text \<open>
  C5. When the ledger answers a submitTransaction call with an engine result other than
  tesSUCCESS, the call returns normally, with accepted = false and the engine's code and
  message in the result. The call throws exactly when the connection cannot be
  established or the submit call itself fails, and then it throws that failure.
\<close>

theorem submitTransaction_engine_rejection_returned:
  "(\<forall>r st1. initialize en st = (Inr (), st1) \<and> submit_res en blob = Inr r \<and>
        engine_result r \<noteq> ''tesSUCCESS'' \<longrightarrow>
      fst (submitTransaction en blob st) =
        Inr \<lparr>accepted = False, txHash = tx_json_hash r, resultCode = engine_result r,
             resultMessage = engine_result_message r, signerCount = None, signers = None,
             result_validated = (case validated r of None \<Rightarrow> False | Some b \<Rightarrow> b)\<rparr>) \<and>
   (\<forall>e. fst (submitTransaction en blob st) = Inl e \<longleftrightarrow>
      fst (initialize en st) = Inl e \<or>
      (fst (initialize en st) = Inr () \<and> submit_res en blob = Inl e))"
  by (auto simp: submitTransaction_def client_submit_def submission_def
      split: sum.splits prod.splits)

theorem submitTransaction_engine_rejection_returned_witness:
  "fst (submitTransaction (testnet\<lparr>submit_res := (\<lambda>b. Inr rejection)\<rparr>) ''1200'' fresh) =
     Inr \<lparr>accepted = False, txHash = ''E3FE'', resultCode = ''tecNO_PERMISSION'',
          resultMessage = ''No permission to perform requested operation.'',
          signerCount = None, signers = None, result_validated = False\<rparr> \<and>
   fst (submitTransaction (testnet\<lparr>submit_res := (\<lambda>b. Inl timed_out)\<rparr>) ''1200'' fresh) =
     Inl timed_out"
proof -
  let ?rejecting = "testnet\<lparr>submit_res := (\<lambda>b. Inr rejection)\<rparr>"
  let ?failing = "testnet\<lparr>submit_res := (\<lambda>b. Inl timed_out)\<rparr>"
  have init: "initialize ?rejecting fresh = (Inr (), online)"
    "initialize ?failing fresh = (Inr (), online)"
    by (simp_all add: initialize_def getXRPLClient_def record_call_def sample_defs)
  have "fst (submitTransaction ?rejecting ''1200'' fresh) =
          Inr \<lparr>accepted = False, txHash = tx_json_hash rejection,
               resultCode = engine_result rejection,
               resultMessage = engine_result_message rejection,
               signerCount = None, signers = None,
               result_validated = (case validated rejection of None \<Rightarrow> False | Some b \<Rightarrow> b)\<rparr>"
    using submitTransaction_engine_rejection_returned
      [of ?rejecting fresh "''1200''", THEN conjunct1, rule_format, of online rejection]
      init(1)
    by (simp add: rejection_def)
  moreover
  have "fst (submitTransaction ?failing ''1200'' fresh) = Inl timed_out"
    using submitTransaction_engine_rejection_returned
      [of ?failing fresh "''1200''", THEN conjunct2, rule_format, of timed_out]
      init(2)
    by simp
  ultimately show ?thesis by (simp add: rejection_def)
qed

text \<open>
  C6. When the ledger answers the escrow query of getEscrowStatus with the error whose
  code is entryNotFound, the call returns normally with the not-found status. Every other
  failure is thrown on as it is: a failure to establish the connection, and a failure of
  the query with any other code or with none.
\<close>

theorem getEscrowStatus_not_found_is_result:
  "(\<forall>e st1. initialize en st = (Inr (), st1) \<and> ledger_entry_res en a n = Inl e \<and>
        data_error e = Some ''entryNotFound'' \<longrightarrow>
      fst (getEscrowStatus en a n st) =
        Inr (NotFound ''Escrow not found. It may have been finished or cancelled.'')) \<and>
   (\<forall>e. (fst (initialize en st) = Inl e \<or>
         (fst (initialize en st) = Inr () \<and> ledger_entry_res en a n = Inl e \<and>
          data_error e \<noteq> Some ''entryNotFound'')) \<longrightarrow>
      fst (getEscrowStatus en a n st) = Inl e)"
  by (auto simp: getEscrowStatus_def getEscrowStatus_try_def client_ledger_entry_def
      split: sum.splits prod.splits dest: initialize_error_plain)

theorem getEscrowStatus_not_found_is_result_witness:
  "fst (getEscrowStatus testnet alice 7 fresh) =
     Inr (NotFound ''Escrow not found. It may have been finished or cancelled.'') \<and>
   fst (getEscrowStatus (testnet\<lparr>ledger_entry_res := (\<lambda>a n. Inl timed_out)\<rparr>) alice 7 fresh) =
     Inl timed_out \<and>
   fst (getEscrowStatus (testnet\<lparr>connect_res := Some timed_out\<rparr>) alice 7 fresh) =
     Inl (Error ''XRPL connection failed: Timeout for request'')"
proof -
  let ?failing = "testnet\<lparr>ledger_entry_res := (\<lambda>a n. Inl timed_out)\<rparr>"
  let ?down = "testnet\<lparr>connect_res := Some timed_out\<rparr>"
  have init: "initialize ?failing fresh = (Inr (), online)"
    "fst (initialize ?down fresh) = Inl (Error ''XRPL connection failed: Timeout for request'')"
    by (simp_all add: initialize_def getXRPLClient_def record_call_def sample_defs)
  have "fst (getEscrowStatus testnet alice 7 fresh) =
          Inr (NotFound ''Escrow not found. It may have been finished or cancelled.'')"
    using getEscrowStatus_not_found_is_result
      [of testnet fresh alice 7, THEN conjunct1, rule_format,
        of online "ClientError ''Entry not found.'' (Some ''entryNotFound'')"]
      testnet_initialize
    by (simp add: testnet_def)
  moreover
  have "fst (getEscrowStatus ?failing alice 7 fresh) = Inl timed_out"
    using getEscrowStatus_not_found_is_result
      [of ?failing fresh alice 7, THEN conjunct2, rule_format, of timed_out]
      init(1)
    by (simp add: timed_out_def)
  moreover
  have "fst (getEscrowStatus ?down alice 7 fresh) =
          Inl (Error ''XRPL connection failed: Timeout for request'')"
    using getEscrowStatus_not_found_is_result
      [of ?down fresh alice 7, THEN conjunct2, rule_format,
        of "Error ''XRPL connection failed: Timeout for request''"]
      init(2)
    by simp
  ultimately show ?thesis by simp
qed

section \<open>The create descriptor\<close>

text \<open>
  C8, as the code has it. A prepareEscrowCreate call that gets through (connection
  available, both addresses well-formed, autofill answering), for a request with an amount
  string, a finishAfter that is present, is not zero and whose conversion does not round
  (finishAfter - 946684800 is a double), and no cancelAfter, condition or memo: the
  descriptor built and handed to autofill is exactly TransactionType = EscrowCreate,
  Account = source, Destination, Amount and FinishAfter = finishAfter - 946684800, so it has
  neither a Condition nor a Memos field; the call makes this one autofill call and returns
  its answer; and when the answer agrees with the descriptor on these seven fields, the
  returned descriptor has the five fields with these values and no Condition and no
  Memos.
\<close>

theorem prepareEscrowCreate_basic_descriptor:
  assumes "initialize en st = (Inr (), st1)"
    and "isValidAddress en (sourceAddress params)"
    and "isValidAddress en (destinationAddress params)"
    and "amount params = Drops drops"
    and "finishAfter params = Some f" and "f \<noteq> 0" and "is_double (f - 946684800)"
    and "cancelAfter params = None" and "condition params = None" and "memo params = None"
    and "autofill_res en (escrowCreateTx params) = Inr p"
  shows "escrowCreateTx params =
           [(''TransactionType'', JStr ''EscrowCreate''),
            (''Account'', JStr (sourceAddress params)),
            (''Destination'', JStr (destinationAddress params)),
            (''Amount'', JStr drops),
            (''FinishAfter'', JNum (f - 946684800))] \<and>
         prepareEscrowCreate en params st =
           (Inr \<lparr>success = True, prepared = p, instructions = create_instructions\<rparr>,
            st1\<lparr>calls := calls st1 @ [Autofill (escrowCreateTx params)]\<rparr>) \<and>
         (agree_on [''TransactionType'', ''Account'', ''Destination'', ''Amount'',
                    ''FinishAfter'', ''Condition'', ''Memos''] (escrowCreateTx params) p \<longrightarrow>
            map_of p ''TransactionType'' = Some (JStr ''EscrowCreate'') \<and>
            map_of p ''Account'' = Some (JStr (sourceAddress params)) \<and>
            map_of p ''Destination'' = Some (JStr (destinationAddress params)) \<and>
            map_of p ''Amount'' = Some (JStr drops) \<and>
            map_of p ''FinishAfter'' = Some (JNum (f - 946684800)) \<and>
            map_of p ''Condition'' = None \<and>
            map_of p ''Memos'' = None)"
proof -
  have built: "escrowCreateTx params =
      [(''TransactionType'', JStr ''EscrowCreate''),
       (''Account'', JStr (sourceAddress params)),
       (''Destination'', JStr (destinationAddress params)),
       (''Amount'', JStr drops),
       (''FinishAfter'', JNum (f - 946684800))]"
    using assms(4-10)
    by (simp add: escrowCreateTx_def amount_json_def toRippleTime_def is_double_def)
  have result: "prepareEscrowCreate en params st =
      (Inr \<lparr>success = True, prepared = p, instructions = create_instructions\<rparr>,
       st1\<lparr>calls := calls st1 @ [Autofill (escrowCreateTx params)]\<rparr>)"
    using assms(1-3,11)
    by (simp add: prepareEscrowCreate_def client_autofill_def record_call_def)
  have kept: "map_of p k = map_of (escrowCreateTx params) k"
    if "agree_on [''TransactionType'', ''Account'', ''Destination'', ''Amount'',
                  ''FinishAfter'', ''Condition'', ''Memos''] (escrowCreateTx params) p"
      and "k \<in> set [''TransactionType'', ''Account'', ''Destination'', ''Amount'',
                      ''FinishAfter'', ''Condition'', ''Memos'']" for k
    using agree_on_field [OF that] .
  show ?thesis
  proof (intro conjI impI)
    show "escrowCreateTx params =
      [(''TransactionType'', JStr ''EscrowCreate''),
       (''Account'', JStr (sourceAddress params)),
       (''Destination'', JStr (destinationAddress params)),
       (''Amount'', JStr drops),
       (''FinishAfter'', JNum (f - 946684800))]"
      by (rule built)
    show "prepareEscrowCreate en params st =
      (Inr \<lparr>success = True, prepared = p, instructions = create_instructions\<rparr>,
       st1\<lparr>calls := calls st1 @ [Autofill (escrowCreateTx params)]\<rparr>)"
      by (rule result)
  next
    assume agree: "agree_on [''TransactionType'', ''Account'', ''Destination'', ''Amount'',
                  ''FinishAfter'', ''Condition'', ''Memos''] (escrowCreateTx params) p"
    show "map_of p ''TransactionType'' = Some (JStr ''EscrowCreate'')"
      by (subst kept [OF agree]) (simp_all add: built)
    show "map_of p ''Account'' = Some (JStr (sourceAddress params))"
      by (subst kept [OF agree]) (simp_all add: built)
    show "map_of p ''Destination'' = Some (JStr (destinationAddress params))"
      by (subst kept [OF agree]) (simp_all add: built)
    show "map_of p ''Amount'' = Some (JStr drops)"
      by (subst kept [OF agree]) (simp_all add: built)
    show "map_of p ''FinishAfter'' = Some (JNum (f - 946684800))"
      by (subst kept [OF agree]) (simp_all add: built)
    show "map_of p ''Condition'' = None"
      by (subst kept [OF agree]) (simp_all add: built)
    show "map_of p ''Memos'' = None"
      by (subst kept [OF agree]) (simp_all add: built)
  qed
qed

theorem prepareEscrowCreate_basic_descriptor_witness:
  "initialize testnet fresh = (Inr (), online) \<and>
   xrplAddress alice \<and> xrplAddress bob \<and>
   is_double (2000003600 - 946684800) \<and>
   prepareEscrowCreate testnet create_request fresh =
     (Inr \<lparr>success = True,
           prepared =
             [(''TransactionType'', JStr ''EscrowCreate''), (''Account'', JStr alice),
              (''Destination'', JStr bob), (''Amount'', JStr ''1000000''),
              (''FinishAfter'', JNum 1053318800),
              (''Fee'', JStr ''12''), (''Sequence'', JNum 7), (''LastLedgerSequence'', JNum 100)],
           instructions = create_instructions\<rparr>,
      \<lparr>connected = True,
       calls =
         [Connect testnet_url, ServerInfo,
          Autofill [(''TransactionType'', JStr ''EscrowCreate''), (''Account'', JStr alice),
                    (''Destination'', JStr bob), (''Amount'', JStr ''1000000''),
                    (''FinishAfter'', JNum 1053318800)]]\<rparr>)"
proof -
  let ?p = "escrowCreateTx create_request @
            [(''Fee'', JStr ''12''), (''Sequence'', JNum 7), (''LastLedgerSequence'', JNum 100)]"
  have valid: "xrplAddress alice" "xrplAddress bob"
    by (simp_all add: sample_defs pattern_defs)
  have exact: "is_double (2000003600 - 946684800)"
    by (simp add: is_double_def double_round_exact)
  have built: "escrowCreateTx create_request =
      [(''TransactionType'', JStr ''EscrowCreate''), (''Account'', JStr alice),
       (''Destination'', JStr bob), (''Amount'', JStr ''1000000''),
       (''FinishAfter'', JNum 1053318800)]"
    by (simp add: escrowCreateTx_def amount_json_def toRippleTime_def double_round_exact
        create_request_def)
  have "prepareEscrowCreate testnet create_request fresh =
          (Inr \<lparr>success = True, prepared = ?p, instructions = create_instructions\<rparr>,
           online\<lparr>calls := calls online @ [Autofill (escrowCreateTx create_request)]\<rparr>)"
    using prepareEscrowCreate_basic_descriptor
      [of testnet fresh online create_request "''1000000''" 2000003600 ?p, THEN conjunct2,
        THEN conjunct1]
      testnet_initialize valid exact
    by (simp add: testnet_def create_request_def)
  with valid exact testnet_initialize show ?thesis
    by (simp add: built online_def)
qed

text \<open>
  C8 as stated fails in three ways. At finishAfter = 0 the code takes the zero for an
  absent value, and the descriptor has no FinishAfter field. At finishAfter =
  -9007199254740991 the subtraction rounds, and FinishAfter is -9007200201425792 where
  finishAfter - 946684800 is -9007200201425791. And the returned descriptor is what
  autofill answers: for a source given as an X-address, which passes the address check,
  the library's autofill puts the classic address into Account, so the Account of the
  returned descriptor is not the source of the request.
\<close>

theorem prepareEscrowCreate_descriptor_exceptions:
  "fst (prepareEscrowCreate testnet (create_request\<lparr>finishAfter := Some 0\<rparr>) fresh) =
     Inr \<lparr>success = True,
          prepared =
            [(''TransactionType'', JStr ''EscrowCreate''), (''Account'', JStr alice),
             (''Destination'', JStr bob), (''Amount'', JStr ''1000000''),
             (''Fee'', JStr ''12''), (''Sequence'', JNum 7), (''LastLedgerSequence'', JNum 100)],
          instructions = create_instructions\<rparr> \<and>
   map_of (escrowCreateTx (create_request\<lparr>finishAfter := Some 0\<rparr>)) ''FinishAfter'' = None \<and>
   map_of (escrowCreateTx (create_request\<lparr>finishAfter := Some (- 9007199254740991)\<rparr>))
       ''FinishAfter'' =
     Some (JNum (- 9007200201425792)) \<and>
   - 9007199254740991 - 946684800 = (- 9007200201425791 :: int) \<and>
   fst (prepareEscrowCreate rewriting (create_request\<lparr>sourceAddress := carol_x\<rparr>) fresh) =
     Inr \<lparr>success = True,
          prepared =
            [(''TransactionType'', JStr ''EscrowCreate''), (''Account'', JStr carol),
             (''Destination'', JStr bob), (''Amount'', JStr ''1000000''),
             (''FinishAfter'', JNum 1053318800),
             (''Flags'', JNum 0), (''Fee'', JStr ''12''), (''Sequence'', JNum 7),
             (''LastLedgerSequence'', JNum 100)],
          instructions = create_instructions\<rparr> \<and>
   carol \<noteq> carol_x"
  by (simp add: prepareEscrowCreate_def initialize_def getXRPLClient_def record_call_def
      client_autofill_def escrowCreateTx_def amount_json_def toRippleTime_def
      double_round_def Let_def double_ulp_small double_ulp_large sample_defs pattern_defs)

text \<open>
  C10. A prepareEscrowCreate call that gets through (connection available, both addresses
  well-formed, autofill answering), for a request with a memo object: the Memos field of
  the descriptor built and handed to autofill is a single memo entry; its MemoType is the
  hexadecimal encoding of the supplied type, and of the literal ``escrow'' when the type
  is omitted or is the empty string; its MemoData is the encoding of the supplied data, and
  empty exactly when the data is omitted or empty; the MemoType is never empty. The call
  returns autofill's answer for this descriptor, and when the answer agrees with it on
  Memos, the Memos field of the returned descriptor is this entry. The encoding of a
  string has two digits for each byte, all of them among 0-9 and A-F, and a standard
  hexadecimal decoder gives the string back from it.
\<close>

theorem prepareEscrowCreate_memo_entry:
  assumes "initialize en st = (Inr (), st1)"
    and "isValidAddress en (sourceAddress params)"
    and "isValidAddress en (destinationAddress params)"
    and "memo params = Some m"
    and "autofill_res en (escrowCreateTx params) = Inr p"
  shows "map_of (escrowCreateTx params) ''Memos'' =
           Some (JArr [JObj [(''Memo'', JObj
             [(''MemoType'',
               JStr (toHex (case mtype m of
                              None \<Rightarrow> ''escrow''
                            | Some t \<Rightarrow> if t = [] then ''escrow'' else t))),
              (''MemoData'',
               JStr (toHex (case mdata m of None \<Rightarrow> [] | Some d \<Rightarrow> d)))])]]) \<and>
         prepareEscrowCreate en params st =
           (Inr \<lparr>success = True, prepared = p, instructions = create_instructions\<rparr>,
            st1\<lparr>calls := calls st1 @ [Autofill (escrowCreateTx params)]\<rparr>) \<and>
         (agree_on [''Memos''] (escrowCreateTx params) p \<longrightarrow>
            map_of p ''Memos'' =
              Some (JArr [JObj [(''Memo'', JObj
                [(''MemoType'',
                  JStr (toHex (case mtype m of
                                 None \<Rightarrow> ''escrow''
                               | Some t \<Rightarrow> if t = [] then ''escrow'' else t))),
                 (''MemoData'',
                  JStr (toHex (case mdata m of None \<Rightarrow> [] | Some d \<Rightarrow> d)))])]])) \<and>
         toHex (case mtype m of None \<Rightarrow> ''escrow'' | Some t \<Rightarrow> if t = [] then ''escrow'' else t)
           \<noteq> [] \<and>
         (toHex (case mdata m of None \<Rightarrow> [] | Some d \<Rightarrow> d) = [] \<longleftrightarrow>
            mdata m = None \<or> mdata m = Some []) \<and>
         toHex ''escrow'' = ''657363726F77'' \<and>
         hexDecode (toHex s) = Some s \<and>
         length (toHex s) = 2 * length s \<and>
         list_all (\<lambda>d. d \<in> set ''0123456789ABCDEF'') (toHex s)"
proof -
  have result: "prepareEscrowCreate en params st =
      (Inr \<lparr>success = True, prepared = p, instructions = create_instructions\<rparr>,
       st1\<lparr>calls := calls st1 @ [Autofill (escrowCreateTx params)]\<rparr>)"
    using assms(1-3,5)
    by (simp add: prepareEscrowCreate_def client_autofill_def record_call_def)
  have "map_of (escrowCreateTx params) ''Memos'' = Some (JArr [memo_entry m])"
    using assms(4) by (simp add: escrowCreateTx_def Let_def update_conv')
  moreover have "memo_entry m =
      JObj [(''Memo'', JObj
        [(''MemoType'',
          JStr (toHex (case mtype m of
                         None \<Rightarrow> ''escrow''
                       | Some t \<Rightarrow> if t = [] then ''escrow'' else t))),
         (''MemoData'', JStr (toHex (case mdata m of None \<Rightarrow> [] | Some d \<Rightarrow> d)))])]"
    by (simp add: memo_entry_def or_default_def split: option.splits)
  ultimately have memos: "map_of (escrowCreateTx params) ''Memos'' =
      Some (JArr [JObj [(''Memo'', JObj
        [(''MemoType'',
          JStr (toHex (case mtype m of
                         None \<Rightarrow> ''escrow''
                       | Some t \<Rightarrow> if t = [] then ''escrow'' else t))),
         (''MemoData'', JStr (toHex (case mdata m of None \<Rightarrow> [] | Some d \<Rightarrow> d)))])]])"
    by simp
  have kept: "agree_on [''Memos''] (escrowCreateTx params) p \<longrightarrow>
      map_of p ''Memos'' = map_of (escrowCreateTx params) ''Memos''"
    by (simp add: agree_on_def)
  have nonempty:
    "toHex (case mtype m of None \<Rightarrow> ''escrow'' | Some t \<Rightarrow> if t = [] then ''escrow'' else t) \<noteq> []"
    by (simp add: toHex_empty_iff split: option.splits)
  have data: "toHex (case mdata m of None \<Rightarrow> [] | Some d \<Rightarrow> d) = [] \<longleftrightarrow>
      mdata m = None \<or> mdata m = Some []"
    by (simp add: toHex_empty_iff split: option.splits)
  have literal: "toHex ''escrow'' = ''657363726F77''"
    by (simp add: toHex_def byte_hex_def hex_digit_def)
  show ?thesis
    using result memos kept nonempty data literal hexDecode_toHex [of s] toHex_length [of s]
      toHex_upper [of s]
    by (simp del: set_simps)
qed

theorem prepareEscrowCreate_memo_entry_witness:
  "initialize testnet fresh = (Inr (), online) \<and>
   xrplAddress alice \<and> xrplAddress bob \<and>
   map_of (escrowCreateTx (create_request\<lparr>memo := Some \<lparr>mtype = Some [], mdata = None\<rparr>\<rparr>))
     ''Memos'' =
     Some (JArr [JObj [(''Memo'', JObj [(''MemoType'', JStr ''657363726F77''),
                                        (''MemoData'', JStr [])])]]) \<and>
   map_of (escrowCreateTx (create_request\<lparr>memo := Some \<lparr>mtype = Some [], mdata = None\<rparr>\<rparr>) @
           [(''Fee'', JStr ''12''), (''Sequence'', JNum 7), (''LastLedgerSequence'', JNum 100)])
     ''Memos'' =
     Some (JArr [JObj [(''Memo'', JObj [(''MemoType'', JStr ''657363726F77''),
                                        (''MemoData'', JStr [])])]]) \<and>
   hexDecode ''657363726F77'' = Some ''escrow''"
proof -
  let ?params = "create_request\<lparr>memo := Some \<lparr>mtype = Some [], mdata = None\<rparr>\<rparr>"
  let ?p = "escrowCreateTx ?params @
            [(''Fee'', JStr ''12''), (''Sequence'', JNum 7), (''LastLedgerSequence'', JNum 100)]"
  have valid: "xrplAddress alice" "xrplAddress bob"
    by (simp_all add: sample_defs pattern_defs)
  have built: "escrowCreateTx ?params =
      [(''TransactionType'', JStr ''EscrowCreate''), (''Account'', JStr alice),
       (''Destination'', JStr bob), (''Amount'', JStr ''1000000''),
       (''FinishAfter'', JNum 1053318800),
       (''Memos'', JArr [memo_entry \<lparr>mtype = Some [], mdata = None\<rparr>])]"
    by (simp add: escrowCreateTx_def amount_json_def toRippleTime_def double_round_exact
        create_request_def)
  have agree: "agree_on [''Memos''] (escrowCreateTx ?params) ?p"
    by (simp add: built agree_on_def)
  have hyps: "isValidAddress testnet (sourceAddress ?params)"
    "isValidAddress testnet (destinationAddress ?params)"
    "memo ?params = Some \<lparr>mtype = Some [], mdata = None\<rparr>"
    "autofill_res testnet (escrowCreateTx ?params) = Inr ?p"
    using valid by (simp_all add: testnet_def create_request_def)
  note fact = prepareEscrowCreate_memo_entry
      [of testnet fresh online ?params "\<lparr>mtype = Some [], mdata = None\<rparr>" ?p "''escrow''",
        OF testnet_initialize hyps]
  have literal: "toHex ''escrow'' = ''657363726F77''"
    by (rule fact [THEN conjunct2, THEN conjunct2, THEN conjunct2, THEN conjunct2,
          THEN conjunct2, THEN conjunct1])
  have decoded: "hexDecode (toHex ''escrow'') = Some ''escrow''"
    by (rule fact [THEN conjunct2, THEN conjunct2, THEN conjunct2, THEN conjunct2,
          THEN conjunct2, THEN conjunct2, THEN conjunct1])
  have empty: "toHex [] = []"
    by (simp add: toHex_def)
  have given: "map_of (escrowCreateTx ?params) ''Memos'' =
      Some (JArr [JObj [(''Memo'', JObj
        [(''MemoType'', JStr (toHex ''escrow'')), (''MemoData'', JStr (toHex []))])]])"
    using fact [THEN conjunct1] by simp
  have returned: "map_of ?p ''Memos'' =
      Some (JArr [JObj [(''Memo'', JObj
        [(''MemoType'', JStr (toHex ''escrow'')), (''MemoData'', JStr (toHex []))])]])"
    using fact [THEN conjunct2, THEN conjunct2, THEN conjunct1] agree by simp
  have "hexDecode ''657363726F77'' = Some ''escrow''"
    using decoded unfolding literal .
  with given returned valid testnet_initialize show ?thesis
    unfolding literal empty by simp
qed

end
